theory Spec2Isabelle
  imports Main
begin

section \<open>JavaScript values\<close>

text \<open>
  The five members of the \<^verbatim>\<open>Level\<close> enum of \<^verbatim>\<open>index.js\<close>. Each is one object
  \<^verbatim>\<open>{ id: ..., precedence: ... }\<close>, created once and compared by identity
  (\<^verbatim>\<open>!==\<close>), so a datatype with one constructor per object models them; the two fields
  are the functions \<open>level_id\<close> and \<open>precedence\<close>.
\<close>

datatype level = DEBUG | LOG | INFO | WARN | ERROR

fun level_id :: "level \<Rightarrow> string" where
  "level_id DEBUG = ''DEBUG''"
| "level_id LOG = ''LOG''"
| "level_id INFO = ''INFO''"
| "level_id WARN = ''WARN''"
| "level_id ERROR = ''ERROR''"

fun precedence :: "level \<Rightarrow> int" where
  "precedence DEBUG = 0"
| "precedence LOG = 1"
| "precedence INFO = 2"
| "precedence WARN = 3"
| "precedence ERROR = 4"

text \<open>
  The values the functions of \<^verbatim>\<open>index.js\<close> receive and hand on. \<open>JLevel l\<close> is the
  enum object \<open>l\<close> itself; \<open>JObj n\<close> is any other object (a plain object or a function),
  told apart from the rest by its identity \<open>n\<close>; \<open>JNum\<close> holds the integer-valued numbers.
  The repository documents a category as a string; the other values are here for the
  arguments of the logging methods and of \<^verbatim>\<open>setLogLevel\<close>.
\<close>

datatype jsval =
    JUndefined
  | JNull
  | JBool bool
  | JNum int
  | JStr string
  | JLevel level
  | JObj nat

text \<open>Truthiness, as \<^verbatim>\<open>!x\<close> and \<^verbatim>\<open>if (x)\<close> read a value.\<close>

fun truthy :: "jsval \<Rightarrow> bool" where
  "truthy JUndefined = False"
| "truthy JNull = False"
| "truthy (JBool b) = b"
| "truthy (JNum n) = (n \<noteq> 0)"
| "truthy (JStr s) = (s \<noteq> [])"
| "truthy (JLevel l) = True"
| "truthy (JObj n) = True"

text \<open>
  The conversion to a string that \<^verbatim>\<open>+\<close> with a string operand and a property key
  \<^verbatim>\<open>o[x]\<close> apply. It is exact on strings (the identity), \<^verbatim>\<open>undefined\<close>,
  \<^verbatim>\<open>null\<close>, the booleans, the integers of magnitude below \<^verbatim>\<open>1e21\<close> (decimal; from
  there on JavaScript prints an exponent) and the objects that do not override
  \<^verbatim>\<open>toString\<close> (\<^verbatim>\<open>[object Object]\<close>). A function or an array prints otherwise, and
  the model does not say how: its \<^verbatim>\<open>[object Object]\<close> for them is a placeholder.
\<close>

definition digit :: "nat \<Rightarrow> char" where
  "digit d = char_of (48 + d)"

function show_nat :: "nat \<Rightarrow> string" where
  "show_nat n = (if n < 10 then [digit n] else show_nat (n div 10) @ [digit (n mod 10)])"
  by pat_completeness auto
termination
  by (relation "measure (\<lambda>n. n)") auto

definition show_int :: "int \<Rightarrow> string" where
  "show_int i = (if i < 0 then CHR ''-'' # show_nat (nat (- i)) else show_nat (nat i))"

fun ToString :: "jsval \<Rightarrow> string" where
  "ToString JUndefined = ''undefined''"
| "ToString JNull = ''null''"
| "ToString (JBool b) = (if b then ''true'' else ''false'')"
| "ToString (JNum n) = show_int n"
| "ToString (JStr s) = s"
| "ToString (JLevel l) = ''[object Object]''"
| "ToString (JObj n) = ''[object Object]''"

section \<open>The Level function object\<close>

text \<open>
  \<^verbatim>\<open>Level\<close> is a function object: \<^verbatim>\<open>Level[key]\<close> finds the five properties the source
  assigns (\<^verbatim>\<open>Level.DEBUG = ...\<close> and so on) and, for any other key, whatever property
  a function object has without the source's doing: its own \<^verbatim>\<open>prototype\<close>,
  \<^verbatim>\<open>name\<close> and \<^verbatim>\<open>length\<close>, and the ones inherited from \<^verbatim>\<open>Function.prototype\<close>
  and \<^verbatim>\<open>Object.prototype\<close> (\<^verbatim>\<open>constructor\<close>, \<^verbatim>\<open>toString\<close>, \<^verbatim>\<open>call\<close>, ...).
  That table belongs to the JavaScript engine, not to the repository, so it is the
  parameter \<open>builtin\<close> of the model: \<open>builtin key\<close> is the value of the built-in
  property \<open>key\<close>, \<open>JUndefined\<close> where there is none.
\<close>

type_synonym builtins = "string \<Rightarrow> jsval"

fun Level_own :: "string \<Rightarrow> level option" where
  "Level_own key =
     (if key = ''DEBUG'' then Some DEBUG
      else if key = ''LOG'' then Some LOG
      else if key = ''INFO'' then Some INFO
      else if key = ''WARN'' then Some WARN
      else if key = ''ERROR'' then Some ERROR
      else None)"

definition Level_get :: "builtins \<Rightarrow> jsval \<Rightarrow> jsval" where
  "Level_get builtin key =
     (case Level_own (ToString key) of
        Some l \<Rightarrow> JLevel l
      | None \<Rightarrow> builtin (ToString key))"

text \<open>
  Part of the table of an engine, for a function declared as
  \<^verbatim>\<open>function Level() {...}\<close>; the objects are numbered arbitrarily. An engine has more
  entries than these (the \<^verbatim>\<open>__defineGetter__\<close> family, for one), so what holds for
  every engine is proved with the table as a parameter, and this one is used only to
  evaluate the model at a key it lists or at a key no engine has.
\<close>

definition function_props :: builtins where
  "function_props key =
     (if key = ''prototype'' then JObj 0
      else if key = ''constructor'' then JObj 1
      else if key = ''toString'' then JObj 2
      else if key = ''call'' then JObj 3
      else if key = ''apply'' then JObj 4
      else if key = ''hasOwnProperty'' then JObj 5
      else if key = ''valueOf'' then JObj 6
      else if key = ''bind'' then JObj 8
      else if key = ''isPrototypeOf'' then JObj 9
      else if key = ''toLocaleString'' then JObj 10
      else if key = ''propertyIsEnumerable'' then JObj 11
      else if key = ''__proto__'' then JObj 12
      else if key = ''name'' then JStr ''Level''
      else if key = ''length'' then JNum 0
      else JUndefined)"

section \<open>The categories storage namespace\<close>

text \<open>
  Modelled from the spec: the storage namespace \<^verbatim>\<open>categories\<close> comes from the package
  \<^verbatim>\<open>@jenkins-cd/storage\<close>, whose code is not in the repository. The spec gives it the
  operations \<^verbatim>\<open>get(key, options)\<close> and \<^verbatim>\<open>set(key, value)\<close> over keys
  \<^verbatim>\<open><namespace>/logging/categories:<category>\<close>, each holding a level identifier string
  or the blank sentinel. The namespace prefix is fixed, so the state is a map from the
  category part of the key to the stored string. The spec gives the storage category
  strings only. For a name that is not a string the model takes the string that the
  concatenation building the key would make of it and goes on as for a string; that
  the package does so, and does not throw, is an assumption, and nothing below is
  claimed of the package on such names.
\<close>

type_synonym store = "string \<rightharpoonup> string"

text \<open>
  Modelled from the spec: the blank sentinel ("not set, resolved via ancestor"). The
  test \<^verbatim>\<open>inherited log level\<close> of \<^verbatim>\<open>loglevels-spec.js\<close> reads it back as
  \<^verbatim>\<open>'_'\<close>.
\<close>

definition blank :: string where
  "blank = ''_''"

text \<open>
  Modelled from the spec: \<^verbatim>\<open>set(key, value)\<close> and \<^verbatim>\<open>get(key)\<close> without options, a
  single key written and read.
\<close>

definition set_item :: "store \<Rightarrow> jsval \<Rightarrow> string \<Rightarrow> store" where
  "set_item st name v = st(ToString name \<mapsto> v)"

definition get_item :: "store \<Rightarrow> jsval \<Rightarrow> jsval" where
  "get_item st name = (case st (ToString name) of None \<Rightarrow> JUndefined | Some v \<Rightarrow> JStr v)"

text \<open>
  Modelled from the spec: the value configured for a category is what the store holds
  for it, unless that is nothing or the blank sentinel. A category is set when it has
  one. The test \<^verbatim>\<open>inherited log level\<close> runs twice; the second time \<^verbatim>\<open>a.b.d\<close> holds
  the blank sentinel and still inherits from \<^verbatim>\<open>a.b\<close>.
\<close>

definition configured :: "store \<Rightarrow> string \<Rightarrow> string option" where
  "configured st k =
     (case st k of None \<Rightarrow> None | Some v \<Rightarrow> if v = blank then None else Some v)"

definition is_set :: "store \<Rightarrow> string \<Rightarrow> bool" where
  "is_set st k = (configured st k \<noteq> None)"

text \<open>
  Modelled from the spec: the dot parent is the name with its last dot-segment stripped
  (\<^verbatim>\<open>a.b.c\<close> gives \<^verbatim>\<open>a.b\<close>); a name without a dot has none.
\<close>

definition dotParent :: "string \<Rightarrow> string option" where
  "dotParent k =
     (if CHR ''.'' \<in> set k
      then Some (rev (tl (dropWhile (\<lambda>c. c \<noteq> CHR ''.'') (rev k))))
      else None)"

text \<open>
  Modelled from the spec: \<^verbatim>\<open>get(name, {checkDotParent: true})\<close>, by the spec's section
  4.2. Check the store for the name; if it is unset, write the blank sentinel for it,
  strip the last dot-segment and retry; stop at the first name that is set, or when the
  name has no dot left. The result is the value found (or \<^verbatim>\<open>undefined\<close>) and the store
  after the writes. The option is \<^verbatim>\<open>true\<close>, with no list of the values that count, so
  any value other than the blank sentinel ends the walk.
\<close>

function walk :: "store \<Rightarrow> string \<Rightarrow> jsval \<times> store" where
  "walk st k =
     (case configured st k of
        Some v \<Rightarrow> (JStr v, st)
      | None \<Rightarrow>
          (case dotParent k of
             None \<Rightarrow> (JUndefined, st(k \<mapsto> blank))
           | Some p \<Rightarrow> walk (st(k \<mapsto> blank)) p))"
  by pat_completeness auto
termination
proof (relation "measure (\<lambda>(st, k). length k)")
  show "wf (measure (\<lambda>(st, k). length k))"
    by simp
next
  fix st :: store and k p :: string
  assume "dotParent k = Some p"
  then show "((st(k \<mapsto> blank), p), (st, k)) \<in> measure (\<lambda>(st, k). length k)"
    using length_dropWhile_le [of "\<lambda>c. c \<noteq> CHR ''.''" "rev k"]
    by (cases k) (auto simp: dotParent_def split: if_splits)
qed

definition get_checkDotParent :: "store \<Rightarrow> jsval \<Rightarrow> jsval \<times> store" where
  "get_checkDotParent st name = walk st (ToString name)"

section \<open>Results of a call\<close>

text \<open>
  A call either returns or throws. The two \<^verbatim>\<open>throw new Error(...)\<close> of \<^verbatim>\<open>index.js\<close>:
  \<open>UnexpectedLevelArg\<close> is \<^verbatim>\<open>Unexpected arg type for "level". Expected one of the
  predefined Level enums.\<close> and \<open>MissingCategory\<close> is \<^verbatim>\<open>Cannot create logger. Log
  "category" name must be specified.\<close> A function that touches the storage returns the
  store as the call leaves it, also when it throws.
\<close>

datatype error = UnexpectedLevelArg | MissingCategory

datatype 'a result = Threw error | Returned 'a

section \<open>setLogLevel\<close>

text \<open>
  The property read \<^verbatim>\<open>level.id\<close>, converted to the string the storage keeps.
\<close>

fun id_of :: "jsval \<Rightarrow> string" where
  "id_of (JLevel l) = level_id l"
| "id_of v = ''undefined''"

definition setLogLevel :: "store \<Rightarrow> jsval \<Rightarrow> jsval \<Rightarrow> unit result \<times> store" where
  "setLogLevel st category level =
     (if level \<noteq> JLevel ERROR \<and> level \<noteq> JLevel WARN \<and> level \<noteq> JLevel INFO
         \<and> level \<noteq> JLevel LOG \<and> level \<noteq> JLevel DEBUG
      then (Threw UnexpectedLevelArg, st)
      else (Returned (), set_item st category (id_of level)))"

section \<open>Logger\<close>

record logger =
  category :: jsval
  logLevel :: jsval

text \<open>
  The constructor \<^verbatim>\<open>Logger(category)\<close>, statement by statement. \<open>builtin\<close> is the
  engine's table behind \<^verbatim>\<open>Level[logLevelId]\<close>.
\<close>

definition Logger :: "builtins \<Rightarrow> store \<Rightarrow> jsval \<Rightarrow> logger result \<times> store" where
  "Logger builtin st cat =
     (if cat = JUndefined then (Threw MissingCategory, st)
      else
        let (logLevelId, st1) = get_checkDotParent st cat;
            this0 = \<lparr>category = cat, logLevel = Level_get builtin logLevelId\<rparr>
        in if \<not> truthy logLevelId \<or> \<not> truthy (Level_get builtin logLevelId)
           then (Returned (this0\<lparr>logLevel := JLevel ERROR\<rparr>),
                 set_item st1 cat (level_id ERROR))
           else (Returned (this0\<lparr>logLevel := Level_get builtin logLevelId\<rparr>), st1))"

text \<open>\<^verbatim>\<open>exports.logger\<close> is \<^verbatim>\<open>new Logger(category)\<close>.\<close>

definition logger :: "builtins \<Rightarrow> store \<Rightarrow> jsval \<Rightarrow> logger result \<times> store" where
  "logger builtin st cat = Logger builtin st cat"

text \<open>
  The condition \<^verbatim>\<open>!logLevelId || !Level[logLevelId]\<close> of the constructor, on which
  it takes \<open>ERROR\<close> and stores its id under the category.
\<close>

definition defaulted :: "builtins \<Rightarrow> store \<Rightarrow> jsval \<Rightarrow> bool" where
  "defaulted builtin st cat =
     (let logLevelId = fst (get_checkDotParent st cat)
      in \<not> truthy logLevelId \<or> \<not> truthy (Level_get builtin logLevelId))"

text \<open>
  The property read \<^verbatim>\<open>x.precedence\<close>: a number on the five Level objects and
  \<^verbatim>\<open>undefined\<close> (\<open>None\<close>) on every other value a Logger's \<^verbatim>\<open>logLevel\<close> can hold (a
  built-in property of a function object has no \<^verbatim>\<open>precedence\<close>).
\<close>

fun precedence_of :: "jsval \<Rightarrow> int option" where
  "precedence_of (JLevel l) = Some (precedence l)"
| "precedence_of v = None"

text \<open>
  \<^verbatim>\<open>isEnabled(level)\<close>, for a Level argument. \<^verbatim>\<open>>=\<close> against \<^verbatim>\<open>undefined\<close> is false.
\<close>

definition isEnabled :: "logger \<Rightarrow> level \<Rightarrow> bool" where
  "isEnabled this level =
     (case precedence_of (logLevel this) of
        Some p \<Rightarrow> precedence level \<ge> p
      | None \<Rightarrow> False)"

definition isDebugEnabled :: "logger \<Rightarrow> bool" where
  "isDebugEnabled this = isEnabled this DEBUG"

definition isLogEnabled :: "logger \<Rightarrow> bool" where
  "isLogEnabled this = isEnabled this LOG"

definition isInfoEnabled :: "logger \<Rightarrow> bool" where
  "isInfoEnabled this = isEnabled this INFO"

definition isWarnEnabled :: "logger \<Rightarrow> bool" where
  "isWarnEnabled this = isEnabled this WARN"

text \<open>
  The \<^verbatim>\<open>arguments\<close> object of a call: array-like, not an array. It has a
  \<^verbatim>\<open>length\<close>, fixed when the call is made, and indexed properties; assigning to an
  index creates or overwrites that property and leaves \<^verbatim>\<open>length\<close> as it is. Reading
  an index it does not have gives \<^verbatim>\<open>undefined\<close>.
\<close>

record arguments =
  len :: nat
  items :: "nat \<Rightarrow> jsval"

definition arguments_of :: "jsval list \<Rightarrow> arguments" where
  "arguments_of xs =
     \<lparr>len = length xs, items = (\<lambda>i. if i < length xs then xs ! i else JUndefined)\<rparr>"

text \<open>
  \<^verbatim>\<open>f.apply(console, callArgs)\<close> calls \<^verbatim>\<open>f\<close> with the properties \<^verbatim>\<open>0\<close> to
  \<^verbatim>\<open>length - 1\<close> of the array-like object.
\<close>

definition apply_list :: "arguments \<Rightarrow> jsval list" where
  "apply_list callArgs = map (items callArgs) [0..<len callArgs]"

text \<open>
  The last loop of \<^verbatim>\<open>logArgs\<close>: \<^verbatim>\<open>callArgs[ii + 1] = callArgsCopy[ii]\<close> for
  \<open>ii\<close> from its start value to the end of the copy.
\<close>

fun put_back :: "arguments \<Rightarrow> jsval list \<Rightarrow> nat \<Rightarrow> arguments" where
  "put_back callArgs [] ii = callArgs"
| "put_back callArgs (x # xs) ii =
     put_back (callArgs\<lparr>items := (items callArgs)(ii + 1 := x)\<rparr>) xs (ii + 1)"

text \<open>The message prefix \<^verbatim>\<open>'[' + level.id + ' - ' + category + '] '\<close>.\<close>

definition prefix_of :: "level \<Rightarrow> jsval \<Rightarrow> string" where
  "prefix_of level cat = ''['' @ level_id level @ '' - '' @ ToString cat @ ''] ''"

definition logArgs :: "level \<Rightarrow> jsval \<Rightarrow> arguments \<Rightarrow> arguments" where
  "logArgs level cat callArgs =
     (if len callArgs = 0 then callArgs
      else
        let callArgsCopy = map (items callArgs) [0..<len callArgs];
            prefix = prefix_of level cat;
            (prefix, callArgsCopy) =
              (case callArgsCopy of
                 JStr s # rest \<Rightarrow> (prefix @ s, rest)
               | _ \<Rightarrow> (prefix, callArgsCopy))
        in put_back (callArgs\<lparr>items := (items callArgs)(0 := JStr prefix)\<rparr>) callArgsCopy 0)"

text \<open>
  The console: the calls made to its five functions so far, oldest first, each with the
  argument list it received.
\<close>

datatype console_fn = ConsoleDebug | ConsoleLog | ConsoleInfo | ConsoleWarn | ConsoleError

type_synonym console = "(console_fn \<times> jsval list) list"

text \<open>
  The logging methods. Each body assigns nothing but what the console call does, so the
  model returns the console after the call.
\<close>

definition debug :: "logger \<Rightarrow> jsval list \<Rightarrow> console \<Rightarrow> console" where
  "debug this args con =
     (if isEnabled this DEBUG
      then con @ [(ConsoleDebug, apply_list (logArgs DEBUG (category this) (arguments_of args)))]
      else con)"

definition log :: "logger \<Rightarrow> jsval list \<Rightarrow> console \<Rightarrow> console" where
  "log this args con =
     (if isEnabled this LOG
      then con @ [(ConsoleLog, apply_list (logArgs LOG (category this) (arguments_of args)))]
      else con)"

definition info :: "logger \<Rightarrow> jsval list \<Rightarrow> console \<Rightarrow> console" where
  "info this args con =
     (if isEnabled this INFO
      then con @ [(ConsoleInfo, apply_list (logArgs INFO (category this) (arguments_of args)))]
      else con)"

definition warn :: "logger \<Rightarrow> jsval list \<Rightarrow> console \<Rightarrow> console" where
  "warn this args con =
     (if isEnabled this WARN
      then con @ [(ConsoleWarn, apply_list (logArgs WARN (category this) (arguments_of args)))]
      else con)"

definition error :: "logger \<Rightarrow> jsval list \<Rightarrow> console \<Rightarrow> console" where
  "error this args con =
     con @ [(ConsoleError, apply_list (logArgs ERROR (category this) (arguments_of args)))]"

section \<open>A program's calls\<close>

text \<open>
  What a program that uses the module can see and change: the categories storage, the
  console, and the Logger objects it has constructed so far (\<open>objects\<close>, each known by
  its position). A call of the module's interface is one step: \<^verbatim>\<open>logger(category)\<close>
  adds the object it constructs, a method is called on an object already there. A call
  that throws leaves the state as the throw found it.
\<close>

record world =
  categories :: store
  console_calls :: console
  objects :: "logger list"

datatype call =
    NewLogger jsval
  | SetLogLevel jsval jsval
  | IsEnabled nat level
  | IsDebugEnabled nat
  | IsLogEnabled nat
  | IsInfoEnabled nat
  | IsWarnEnabled nat
  | Debug nat "jsval list"
  | Log nat "jsval list"
  | Info nat "jsval list"
  | Warn nat "jsval list"
  | Error nat "jsval list"

text \<open>
  A method called through a position that holds no object is no call at all; the state
  stays. The \<^verbatim>\<open>is...Enabled\<close> methods return a boolean and assign nothing.
\<close>

definition on_object :: "world \<Rightarrow> nat \<Rightarrow> (logger \<Rightarrow> console \<Rightarrow> console) \<Rightarrow> world" where
  "on_object w r m =
     (if r < length (objects w)
      then w\<lparr>console_calls := m (objects w ! r) (console_calls w)\<rparr>
      else w)"

fun exec :: "builtins \<Rightarrow> world \<Rightarrow> call \<Rightarrow> world" where
  "exec builtin w (NewLogger cat) =
     (case logger builtin (categories w) cat of
        (Threw e, st) \<Rightarrow> w\<lparr>categories := st\<rparr>
      | (Returned this, st) \<Rightarrow> w\<lparr>categories := st, objects := objects w @ [this]\<rparr>)"
| "exec builtin w (SetLogLevel cat level) =
     w\<lparr>categories := snd (setLogLevel (categories w) cat level)\<rparr>"
| "exec builtin w (IsEnabled r level) = w"
| "exec builtin w (IsDebugEnabled r) = w"
| "exec builtin w (IsLogEnabled r) = w"
| "exec builtin w (IsInfoEnabled r) = w"
| "exec builtin w (IsWarnEnabled r) = w"
| "exec builtin w (Debug r args) = on_object w r (\<lambda>this. debug this args)"
| "exec builtin w (Log r args) = on_object w r (\<lambda>this. log this args)"
| "exec builtin w (Info r args) = on_object w r (\<lambda>this. info this args)"
| "exec builtin w (Warn r args) = on_object w r (\<lambda>this. warn this args)"
| "exec builtin w (Error r args) = on_object w r (\<lambda>this. error this args)"

definition run :: "builtins \<Rightarrow> world \<Rightarrow> call list \<Rightarrow> world" where
  "run builtin w calls = foldl (exec builtin) w calls"

text \<open>
  The start of a program, and the three \<^verbatim>\<open>setLogLevel\<close> calls with which the tests
  of \<^verbatim>\<open>loglevels-spec.js\<close> begin.
\<close>

definition start :: world where
  "start = \<lparr>categories = Map.empty, console_calls = [], objects = []\<rparr>"

definition configure_abc :: "call list" where
  "configure_abc =
     [SetLogLevel (JStr ''a'') (JLevel WARN),
      SetLogLevel (JStr ''a.b'') (JLevel INFO),
      SetLogLevel (JStr ''a.b.c'') (JLevel DEBUG)]"

section \<open>The resolution as the documentation words it\<close>

text \<open>
  The dot ancestors of a name, nearest first: the name itself, then the name with its
  last dot-segment stripped, and so on.
\<close>

function ancestors :: "string \<Rightarrow> string list" where
  "ancestors k = k # (case dotParent k of None \<Rightarrow> [] | Some p \<Rightarrow> ancestors p)"
  by pat_completeness auto
termination
proof (relation "measure length")
  show "wf (measure (length :: string \<Rightarrow> nat))"
    by simp
next
  fix k p :: string
  assume "dotParent k = Some p"
  then show "(p, k) \<in> measure length"
    using length_dropWhile_le [of "\<lambda>c. c \<noteq> CHR ''.''" "rev k"]
    by (cases k) (auto simp: dotParent_def split: if_splits)
qed

text \<open>
  The value of the nearest dot ancestor that is set, if there is one; and the ancestors
  the walk passes before it gets there, none of them set.
\<close>

definition nearest_set_value :: "store \<Rightarrow> string \<Rightarrow> string option" where
  "nearest_set_value st k =
     (case find (is_set st) (ancestors k) of None \<Rightarrow> None | Some a \<Rightarrow> configured st a)"

definition unset_queried :: "store \<Rightarrow> string \<Rightarrow> string list" where
  "unset_queried st k = takeWhile (\<lambda>a. \<not> is_set st a) (ancestors k)"

text \<open>
  The level as the spec's invariant words it: the configured level of the nearest dot
  ancestor that has a valid configured level, and \<open>ERROR\<close> when there is none.
\<close>

definition has_valid_level :: "store \<Rightarrow> string \<Rightarrow> bool" where
  "has_valid_level st a = (case st a of None \<Rightarrow> False | Some v \<Rightarrow> Level_own v \<noteq> None)"

definition nearest_valid_level :: "store \<Rightarrow> string \<Rightarrow> level" where
  "nearest_valid_level st k =
     (case find (has_valid_level st) (ancestors k) of
        None \<Rightarrow> ERROR
      | Some a \<Rightarrow>
          (case st a of
             None \<Rightarrow> ERROR
           | Some v \<Rightarrow> (case Level_own v of None \<Rightarrow> ERROR | Some l \<Rightarrow> l)))"

section \<open>Level comparison\<close>

text \<open>
  C3. For every Logger and every Level \<open>l\<close>, \<^verbatim>\<open>isEnabled(l)\<close> returns true if and only
  if \<open>l\<close>'s precedence is at least the precedence of the Logger's \<^verbatim>\<open>logLevel\<close>. The
  comparison is true only of two numbers, so the right-hand side names the Level whose
  precedence \<^verbatim>\<open>logLevel.precedence\<close> reads.
\<close>

theorem isEnabled_iff_precedence:
  "isEnabled this l \<longleftrightarrow> (\<exists>lv. logLevel this = JLevel lv \<and> precedence lv \<le> precedence l)"
  unfolding isEnabled_def by (cases "logLevel this") auto

theorem isEnabled_iff_precedence_witness:
  "isEnabled \<lparr>category = JStr ''a.b.d'', logLevel = JLevel INFO\<rparr> WARN
   \<and> \<not> isEnabled \<lparr>category = JStr ''a.b.d'', logLevel = JLevel INFO\<rparr> DEBUG"
  using isEnabled_iff_precedence [of "\<lparr>category = JStr ''a.b.d'', logLevel = JLevel INFO\<rparr>" WARN]
    isEnabled_iff_precedence [of "\<lparr>category = JStr ''a.b.d'', logLevel = JLevel INFO\<rparr>" DEBUG]
  by simp

text \<open>
  C4. \<^verbatim>\<open>isEnabled\<close> is monotonic in the precedence order: if a Logger enables a Level,
  it enables every Level of the same or a higher precedence.
\<close>

theorem isEnabled_monotonic:
  assumes "precedence l1 \<le> precedence l2" and "isEnabled this l1"
  shows "isEnabled this l2"
  using assms unfolding isEnabled_def by (cases "logLevel this") auto

theorem isEnabled_monotonic_witness:
  "precedence INFO \<le> precedence WARN
   \<and> isEnabled \<lparr>category = JStr ''a.b.d'', logLevel = JLevel INFO\<rparr> INFO
   \<and> isEnabled \<lparr>category = JStr ''a.b.d'', logLevel = JLevel INFO\<rparr> WARN"
proof -
  have p: "precedence INFO \<le> precedence WARN"
    by simp
  have e: "isEnabled \<lparr>category = JStr ''a.b.d'', logLevel = JLevel INFO\<rparr> INFO"
    by (simp add: isEnabled_def)
  from isEnabled_monotonic [OF p e] p e show ?thesis
    by simp
qed

section \<open>Argument checks\<close>

text \<open>
  C5. \<^verbatim>\<open>setLogLevel(category, level)\<close> throws when \<open>level\<close> is not one of the five
  predefined Level objects and leaves the storage as it was; for each of the five it
  returns, having stored the Level's id string under the category.
\<close>

theorem setLogLevel_checks_level:
  "setLogLevel st cat lv =
     (case lv of
        JLevel l \<Rightarrow> (Returned (), st(ToString cat \<mapsto> level_id l))
      | _ \<Rightarrow> (Threw UnexpectedLevelArg, st))"
proof (cases lv)
  case (JLevel l)
  then show ?thesis
    by (cases l) (simp_all add: setLogLevel_def set_item_def)
qed (simp_all add: setLogLevel_def)

theorem setLogLevel_checks_level_witness:
  "setLogLevel Map.empty (JStr ''a.b.c'') (JLevel DEBUG) = (Returned (), [''a.b.c'' \<mapsto> ''DEBUG''])
   \<and> setLogLevel [''a'' \<mapsto> ''WARN''] (JStr ''a'') (JStr ''DEBUG'')
       = (Threw UnexpectedLevelArg, [''a'' \<mapsto> ''WARN''])
   \<and> setLogLevel [''a'' \<mapsto> ''WARN''] (JStr ''a'') JUndefined
       = (Threw UnexpectedLevelArg, [''a'' \<mapsto> ''WARN''])
   \<and> setLogLevel [''a'' \<mapsto> ''WARN''] (JStr ''a'') (JObj 7)
       = (Threw UnexpectedLevelArg, [''a'' \<mapsto> ''WARN''])"
  using setLogLevel_checks_level [of Map.empty "JStr ''a.b.c''" "JLevel DEBUG"]
    setLogLevel_checks_level [of "[''a'' \<mapsto> ''WARN'']" "JStr ''a''" "JStr ''DEBUG''"]
    setLogLevel_checks_level [of "[''a'' \<mapsto> ''WARN'']" "JStr ''a''" JUndefined]
    setLogLevel_checks_level [of "[''a'' \<mapsto> ''WARN'']" "JStr ''a''" "JObj 7"]
  by simp

text \<open>
  C6. \<^verbatim>\<open>logger(category)\<close> with the category missing (\<^verbatim>\<open>undefined\<close>) throws at
  once: the storage is untouched and the program has no Logger object more than before.
\<close>

theorem logger_missing_category:
  "logger builtin st JUndefined = (Threw MissingCategory, st)
   \<and> exec builtin w (NewLogger JUndefined) = w"
  by (simp add: logger_def Logger_def)

theorem logger_missing_category_witness:
  "logger function_props [''a'' \<mapsto> ''WARN''] JUndefined
     = (Threw MissingCategory, [''a'' \<mapsto> ''WARN''])
   \<and> exec function_props \<lparr>categories = [''a'' \<mapsto> ''WARN''], console_calls = [], objects = []\<rparr>
        (NewLogger JUndefined)
      = \<lparr>categories = [''a'' \<mapsto> ''WARN''], console_calls = [], objects = []\<rparr>"
  using logger_missing_category [of function_props "[''a'' \<mapsto> ''WARN'']"
      "\<lparr>categories = [''a'' \<mapsto> ''WARN''], console_calls = [], objects = []\<rparr>"]
  by simp

section \<open>The dot-parent walk\<close>

text \<open>
  The recursive equations are unfolded by hand, one step at a time.
\<close>

declare walk.simps [simp del] ancestors.simps [simp del]

lemma dotParent_shorter: "dotParent k = Some p \<Longrightarrow> length p < length k"
  using length_dropWhile_le [of "\<lambda>c. c \<noteq> CHR ''.''" "rev k"]
  by (cases k) (auto simp: dotParent_def split: if_splits)

lemma ancestors_shorter: "a \<in> set (ancestors k) \<Longrightarrow> length a \<le> length k"
proof (induction k rule: ancestors.induct)
  case (1 k)
  show ?case
  proof (cases "dotParent k")
    case None
    with "1.prems" show ?thesis
      by (simp add: ancestors.simps [of k])
  next
    case (Some p)
    with "1.prems" have "a = k \<or> a \<in> set (ancestors p)"
      by (simp add: ancestors.simps [of k])
    with "1.IH" [OF Some] dotParent_shorter [OF Some] show ?thesis
      by auto
  qed
qed

lemma not_ancestor_of_parent: "dotParent k = Some p \<Longrightarrow> k \<notin> set (ancestors p)"
  using ancestors_shorter [of k p] dotParent_shorter [of k p] by auto

lemma configured_upd_other: "a \<noteq> k \<Longrightarrow> configured (st(k \<mapsto> x)) a = configured st a"
  by (simp add: configured_def)

lemma find_is_set_upd:
  "k \<notin> set xs \<Longrightarrow> find (is_set (st(k \<mapsto> x))) xs = find (is_set st) xs"
  by (induction xs) (auto simp: is_set_def configured_upd_other)

lemma nearest_set_value_upd:
  assumes "k \<notin> set (ancestors p)"
  shows "nearest_set_value (st(k \<mapsto> x)) p = nearest_set_value st p"
proof -
  have "find (is_set (st(k \<mapsto> x))) (ancestors p) = find (is_set st) (ancestors p)"
    using assms by (rule find_is_set_upd)
  moreover have "a \<noteq> k" if "find (is_set st) (ancestors p) = Some a" for a
    using that assms by (auto simp: find_Some_iff)
  ultimately show ?thesis
    by (auto simp: nearest_set_value_def configured_upd_other split: option.splits)
qed

lemma nearest_set_value_step:
  "nearest_set_value st k =
     (case configured st k of
        Some v \<Rightarrow> Some v
      | None \<Rightarrow> (case dotParent k of None \<Rightarrow> None | Some p \<Rightarrow> nearest_set_value st p))"
  by (simp add: nearest_set_value_def is_set_def ancestors.simps [of k] split: option.splits)

lemma unset_queried_step:
  "unset_queried st k =
     (case configured st k of
        Some v \<Rightarrow> []
      | None \<Rightarrow> k # (case dotParent k of None \<Rightarrow> [] | Some p \<Rightarrow> unset_queried st p))"
  by (simp add: unset_queried_def is_set_def ancestors.simps [of k] split: option.splits)

lemma unset_queried_upd:
  assumes "k \<notin> set (ancestors p)"
  shows "unset_queried (st(k \<mapsto> x)) p = unset_queried st p"
proof -
  have "is_set (st(k \<mapsto> x)) a = is_set st a" if "a \<in> set (ancestors p)" for a
    using that assms by (auto simp: is_set_def configured_def)
  then show ?thesis
    unfolding unset_queried_def by (auto intro: takeWhile_cong)
qed

lemma walk_fst:
  "fst (walk st k) = (case nearest_set_value st k of None \<Rightarrow> JUndefined | Some v \<Rightarrow> JStr v)"
proof (induction st k rule: walk.induct)
  case (1 st k)
  show ?case
  proof (cases "configured st k")
    case (Some v)
    then show ?thesis
      by (simp add: walk.simps [of st k] nearest_set_value_step [of st k])
  next
    case unset: None
    show ?thesis
    proof (cases "dotParent k")
      case None
      with unset show ?thesis
        by (simp add: walk.simps [of st k] nearest_set_value_step [of st k])
    next
      case (Some p)
      have w: "walk st k = walk (st(k \<mapsto> blank)) p"
        using unset Some by (simp add: walk.simps [of st k])
      have n: "nearest_set_value st k = nearest_set_value (st(k \<mapsto> blank)) p"
        using unset Some
        by (simp add: nearest_set_value_step [of st k]
            nearest_set_value_upd [OF not_ancestor_of_parent [OF Some]])
      from "1.IH" [OF unset Some] show ?thesis
        by (simp only: w n)
    qed
  qed
qed

lemma walk_snd:
  "snd (walk st k) a = (if a \<in> set (unset_queried st k) then Some blank else st a)"
proof (induction st k rule: walk.induct)
  case (1 st k)
  show ?case
  proof (cases "configured st k")
    case (Some v)
    then show ?thesis
      by (simp add: walk.simps [of st k] unset_queried_step [of st k])
  next
    case unset: None
    show ?thesis
    proof (cases "dotParent k")
      case None
      with unset show ?thesis
        by (simp add: walk.simps [of st k] unset_queried_step [of st k])
    next
      case (Some p)
      have w: "walk st k = walk (st(k \<mapsto> blank)) p"
        using unset Some by (simp add: walk.simps [of st k])
      have u: "unset_queried st k = k # unset_queried (st(k \<mapsto> blank)) p"
        using unset Some
        by (simp add: unset_queried_step [of st k]
            unset_queried_upd [OF not_ancestor_of_parent [OF Some]])
      have "snd (walk (st(k \<mapsto> blank)) p) a
          = (if a \<in> set (unset_queried (st(k \<mapsto> blank)) p) then Some blank
             else (st(k \<mapsto> blank)) a)"
        by (rule "1.IH" [OF unset Some])
      then show ?thesis
        unfolding w u by (cases "a = k") simp_all
    qed
  qed
qed

lemma Level_own_level_id: "Level_own (level_id l) = Some l"
  by (cases l) simp_all

text \<open>
  C1, as the code has it. For every category the Logger that \<^verbatim>\<open>logger\<close> creates has
  one resolved level, fixed by the constructor from the value of the nearest dot
  ancestor (the category itself first) that is set, whatever that value is: the Level
  it names when it is a Level id, and \<open>ERROR\<close> when no ancestor is set or the value
  names no Level. The value of a farther ancestor is never read once a nearer one is
  set. The one case left open is a value that names a built-in property of the Level
  function object.
\<close>

theorem logger_resolved_level:
  assumes "cat \<noteq> JUndefined"
    and "\<And>v. nearest_set_value st (ToString cat) = Some v \<Longrightarrow> Level_own v = None
           \<Longrightarrow> \<not> truthy (builtin v)"
  shows "fst (logger builtin st cat) =
     Returned \<lparr>category = cat,
       logLevel = JLevel (case nearest_set_value st (ToString cat) of
                            None \<Rightarrow> ERROR
                          | Some v \<Rightarrow> (case Level_own v of None \<Rightarrow> ERROR | Some l \<Rightarrow> l))\<rparr>"
proof (cases "nearest_set_value st (ToString cat)")
  case None
  then have "fst (get_checkDotParent st cat) = JUndefined"
    by (simp add: get_checkDotParent_def walk_fst)
  with assms(1) None show ?thesis
    by (cases "get_checkDotParent st cat") (simp add: logger_def Logger_def Let_def)
next
  case (Some v)
  then have found: "fst (get_checkDotParent st cat) = JStr v"
    by (simp add: get_checkDotParent_def walk_fst)
  show ?thesis
  proof (cases "Level_own v")
    case None
    with assms(2) [OF Some] have "\<not> truthy (Level_get builtin (JStr v))"
      by (simp add: Level_get_def)
    with assms(1) Some None found show ?thesis
      by (cases "get_checkDotParent st cat") (simp add: logger_def Logger_def Let_def)
  next
    case (Some l)
    then have "Level_get builtin (JStr v) = JLevel l" and "v \<noteq> []"
      by (auto simp: Level_get_def)
    with assms(1) \<open>nearest_set_value st (ToString cat) = Some v\<close> Some found show ?thesis
      by (cases "get_checkDotParent st cat") (simp add: logger_def Logger_def Let_def)
  qed
qed

theorem logger_resolved_level_witness:
  "JStr ''a.b.d'' \<noteq> JUndefined
   \<and> nearest_set_value [''a'' \<mapsto> ''WARN'', ''a.b'' \<mapsto> ''INFO''] ''a.b.d'' = Some ''INFO''
   \<and> fst (logger function_props [''a'' \<mapsto> ''WARN'', ''a.b'' \<mapsto> ''INFO''] (JStr ''a.b.d''))
       = Returned \<lparr>category = JStr ''a.b.d'', logLevel = JLevel INFO\<rparr>
   \<and> nearest_set_value [''a.b'' \<mapsto> ''FOO''] ''a.b'' = Some ''FOO''
   \<and> Level_own ''FOO'' = None \<and> \<not> truthy (function_props ''FOO'')
   \<and> fst (logger function_props [''a.b'' \<mapsto> ''FOO''] (JStr ''a.b''))
       = Returned \<lparr>category = JStr ''a.b'', logLevel = JLevel ERROR\<rparr>
   \<and> nearest_set_value Map.empty ''z.z.z'' = None
   \<and> fst (logger function_props Map.empty (JStr ''z.z.z''))
       = Returned \<lparr>category = JStr ''z.z.z'', logLevel = JLevel ERROR\<rparr>"
proof -
  have n1: "nearest_set_value [''a'' \<mapsto> ''WARN'', ''a.b'' \<mapsto> ''INFO''] ''a.b.d'' = Some ''INFO''"
    by code_simp
  have n2: "nearest_set_value [''a.b'' \<mapsto> ''FOO''] ''a.b'' = Some ''FOO''"
    by code_simp
  have n3: "nearest_set_value Map.empty ''z.z.z'' = None"
    by code_simp
  have f: "\<not> truthy (function_props ''FOO'')"
    by (simp add: function_props_def)
  have r1: "fst (logger function_props [''a'' \<mapsto> ''WARN'', ''a.b'' \<mapsto> ''INFO''] (JStr ''a.b.d''))
       = Returned \<lparr>category = JStr ''a.b.d'', logLevel = JLevel INFO\<rparr>"
    using logger_resolved_level [of "JStr ''a.b.d''" "[''a'' \<mapsto> ''WARN'', ''a.b'' \<mapsto> ''INFO'']"
        function_props]
    by (simp add: n1)
  have r2: "fst (logger function_props [''a.b'' \<mapsto> ''FOO''] (JStr ''a.b''))
       = Returned \<lparr>category = JStr ''a.b'', logLevel = JLevel ERROR\<rparr>"
    using logger_resolved_level [of "JStr ''a.b''" "[''a.b'' \<mapsto> ''FOO'']" function_props] f
    by (simp add: n2)
  have r3: "fst (logger function_props Map.empty (JStr ''z.z.z''))
       = Returned \<lparr>category = JStr ''z.z.z'', logLevel = JLevel ERROR\<rparr>"
    using logger_resolved_level [of "JStr ''z.z.z''" Map.empty function_props]
    by (simp add: n3)
  from n1 n2 n3 f r1 r2 r3 show ?thesis
    by simp
qed

text \<open>
  C1, as the spec words it, fails: with \<^verbatim>\<open>a.b\<close> set to the spurious value
  \<^verbatim>\<open>FOO\<close> and \<^verbatim>\<open>a\<close> set to \<^verbatim>\<open>DEBUG\<close>, the nearest dot ancestor of \<^verbatim>\<open>a.b\<close> with
  a valid configured level is \<^verbatim>\<open>a\<close>, and the Logger for \<^verbatim>\<open>a.b\<close> gets \<open>ERROR\<close>.
\<close>

theorem nearest_valid_level_counterexample:
  "fst (logger function_props [''a.b'' \<mapsto> ''FOO'', ''a'' \<mapsto> ''DEBUG''] (JStr ''a.b''))
     = Returned \<lparr>category = JStr ''a.b'', logLevel = JLevel ERROR\<rparr>
   \<and> nearest_valid_level [''a.b'' \<mapsto> ''FOO'', ''a'' \<mapsto> ''DEBUG''] ''a.b'' = DEBUG"
  by code_simp

lemma logger_store:
  "cat \<noteq> JUndefined \<Longrightarrow>
   snd (logger builtin st cat) =
     (if defaulted builtin st cat
      then (snd (get_checkDotParent st cat))(ToString cat \<mapsto> level_id ERROR)
      else snd (get_checkDotParent st cat))"
  by (cases "get_checkDotParent st cat")
    (simp add: logger_def Logger_def defaulted_def Let_def set_item_def)

text \<open>
  C2. When \<^verbatim>\<open>logger(c)\<close> resolves the level of \<open>c\<close>, every unset name the walk
  queries gets the blank sentinel written for it by the lookup; in the storage the
  constructor leaves, each of them holds the blank sentinel, but for \<open>c\<close> itself when
  the constructor took the default, which then holds the default's id \<^verbatim>\<open>ERROR\<close>. So
  every name touched is there for a storage inspector to show.
\<close>

theorem logger_writes_sentinels:
  assumes "cat \<noteq> JUndefined" and "a \<in> set (unset_queried st (ToString cat))"
  shows "snd (get_checkDotParent st cat) a = Some blank
    \<and> snd (logger builtin st cat) a =
        Some (if a = ToString cat \<and> defaulted builtin st cat then level_id ERROR else blank)"
  using assms by (simp add: logger_store get_checkDotParent_def walk_snd)

theorem logger_writes_sentinels_witness:
  "JStr ''a.x.a'' \<noteq> JUndefined
   \<and> unset_queried [''a'' \<mapsto> ''WARN''] ''a.x.a'' = [''a.x.a'', ''a.x'']
   \<and> snd (logger function_props [''a'' \<mapsto> ''WARN''] (JStr ''a.x.a'')) ''a.x.a'' = Some ''_''
   \<and> snd (logger function_props [''a'' \<mapsto> ''WARN''] (JStr ''a.x.a'')) ''a.x'' = Some ''_''
   \<and> unset_queried Map.empty ''z.z'' = [''z.z'', ''z'']
   \<and> snd (logger function_props Map.empty (JStr ''z.z'')) ''z.z'' = Some ''ERROR''
   \<and> snd (logger function_props Map.empty (JStr ''z.z'')) ''z'' = Some ''_''"
proof -
  have u1: "unset_queried [''a'' \<mapsto> ''WARN''] ''a.x.a'' = [''a.x.a'', ''a.x'']"
    by code_simp
  have u2: "unset_queried Map.empty ''z.z'' = [''z.z'', ''z'']"
    by code_simp
  have d1: "\<not> defaulted function_props [''a'' \<mapsto> ''WARN''] (JStr ''a.x.a'')"
    by code_simp
  have d2: "defaulted function_props Map.empty (JStr ''z.z'')"
    by code_simp
  show ?thesis
    using logger_writes_sentinels [of "JStr ''a.x.a''" "''a.x.a''" "[''a'' \<mapsto> ''WARN'']" function_props]
      logger_writes_sentinels [of "JStr ''a.x.a''" "''a.x''" "[''a'' \<mapsto> ''WARN'']" function_props]
      logger_writes_sentinels [of "JStr ''z.z''" "''z.z''" Map.empty function_props]
      logger_writes_sentinels [of "JStr ''z.z''" "''z''" Map.empty function_props]
    by (simp add: u1 u2 d1 d2 blank_def)
qed

section \<open>Loggers stay as constructed\<close>

lemma exec_keeps_objects:
  assumes "r < length (objects w)"
  shows "r < length (objects (exec builtin w c)) \<and> objects (exec builtin w c) ! r = objects w ! r"
  using assms
  by (cases c) (auto simp: on_object_def nth_append split: prod.splits result.splits)

lemma run_keeps_objects:
  assumes "r < length (objects w)"
  shows "r < length (objects (run builtin w calls))
    \<and> objects (run builtin w calls) ! r = objects w ! r"
  using assms
proof (induction calls arbitrary: w)
  case Nil
  then show ?case
    by (simp add: run_def)
next
  case (Cons c calls)
  from exec_keeps_objects [OF Cons.prems, of builtin c]
  have "r < length (objects (exec builtin w c))"
    and same: "objects (exec builtin w c) ! r = objects w ! r"
    by simp_all
  from Cons.IH [OF this(1)] same show ?case
    by (simp add: run_def)
qed

lemma level_id_not_blank: "level_id l \<noteq> blank"
  by (cases l) (simp_all add: blank_def)

lemma logger_after_set:
  assumes "cat \<noteq> JUndefined"
  shows "logger builtin (st(ToString cat \<mapsto> level_id l)) cat
    = (Returned \<lparr>category = cat, logLevel = JLevel l\<rparr>, st(ToString cat \<mapsto> level_id l))"
proof -
  have "walk (st(ToString cat \<mapsto> level_id l)) (ToString cat)
      = (JStr (level_id l), st(ToString cat \<mapsto> level_id l))"
    by (simp add: walk.simps [of _ "ToString cat"] configured_def level_id_not_blank)
  moreover have "Level_get builtin (JStr (level_id l)) = JLevel l"
    by (simp add: Level_get_def Level_own_level_id del: Level_own.simps)
  moreover have "truthy (JStr (level_id l))"
    by (cases l) simp_all
  ultimately show ?thesis
    using assms by (simp add: logger_def Logger_def get_checkDotParent_def)
qed

lemma setLogLevel_level:
  "setLogLevel st cat (JLevel l) = (Returned (), st(ToString cat \<mapsto> level_id l))"
  by (cases l) (simp_all add: setLogLevel_def set_item_def)

text \<open>
  C7. A Logger is immutable after construction. Whatever calls a program makes
  afterwards (methods of this or another Logger, \<^verbatim>\<open>setLogLevel\<close>, \<^verbatim>\<open>logger\<close>), a
  Logger object that exists keeps its category and its level. Only a new Logger
  resolves again: after \<^verbatim>\<open>setLogLevel(c, l)\<close>, \<^verbatim>\<open>logger(c)\<close> adds an object with the
  level \<open>l\<close> and the objects before it are the same.
\<close>

theorem loggers_immutable:
  "(r < length (objects w) \<longrightarrow>
      r < length (objects (run builtin w calls))
      \<and> objects (run builtin w calls) ! r = objects w ! r)
   \<and> (cat \<noteq> JUndefined \<longrightarrow>
      objects (run builtin w [SetLogLevel cat (JLevel l), NewLogger cat])
        = objects w @ [\<lparr>category = cat, logLevel = JLevel l\<rparr>])"
  by (simp add: run_keeps_objects) (simp add: run_def setLogLevel_level logger_after_set)

theorem loggers_immutable_witness:
  "objects (run function_props
      \<lparr>categories = [''a'' \<mapsto> ''WARN''], console_calls = [],
       objects = [\<lparr>category = JStr ''a'', logLevel = JLevel WARN\<rparr>]\<rparr>
      [Info 0 [JStr ''message''], SetLogLevel (JStr ''a'') (JLevel DEBUG), IsDebugEnabled 0,
       Debug 0 [JStr ''message''], NewLogger (JStr ''a''), Error 0 [JStr ''message'']]) ! 0
     = \<lparr>category = JStr ''a'', logLevel = JLevel WARN\<rparr>
   \<and> objects (run function_props
      \<lparr>categories = [''a'' \<mapsto> ''WARN''], console_calls = [],
       objects = [\<lparr>category = JStr ''a'', logLevel = JLevel WARN\<rparr>]\<rparr>
      [SetLogLevel (JStr ''a'') (JLevel DEBUG), NewLogger (JStr ''a'')])
     = [\<lparr>category = JStr ''a'', logLevel = JLevel WARN\<rparr>,
        \<lparr>category = JStr ''a'', logLevel = JLevel DEBUG\<rparr>]"
  using loggers_immutable [of 0
      "\<lparr>categories = [''a'' \<mapsto> ''WARN''], console_calls = [],
        objects = [\<lparr>category = JStr ''a'', logLevel = JLevel WARN\<rparr>]\<rparr>"
      function_props
      "[Info 0 [JStr ''message''], SetLogLevel (JStr ''a'') (JLevel DEBUG), IsDebugEnabled 0,
        Debug 0 [JStr ''message''], NewLogger (JStr ''a''), Error 0 [JStr ''message'']]"
      "JStr ''a''" DEBUG]
  by simp

section \<open>What reaches the console\<close>

lemma len_put_back: "len (put_back a xs ii) = len a"
  by (induction xs arbitrary: a ii) simp_all

lemma items_put_back:
  "items (put_back a xs ii) i =
     (if ii < i \<and> i \<le> ii + length xs then xs ! (i - ii - 1) else items a i)"
proof (induction xs arbitrary: a ii)
  case Nil
  then show ?case by auto
next
  case (Cons x xs)
  have "items (put_back (a\<lparr>items := (items a)(ii + 1 := x)\<rparr>) xs (ii + 1)) i =
      (if ii + 1 < i \<and> i \<le> ii + 1 + length xs then xs ! (i - (ii + 1) - 1)
       else items (a\<lparr>items := (items a)(ii + 1 := x)\<rparr>) i)"
    by (rule Cons.IH)
  then show ?case
    by (auto simp: nth_Cons')
qed

lemma len_arguments_of: "len (arguments_of xs) = length xs"
  by (simp add: arguments_of_def)

lemma items_arguments_of: "i < length xs \<Longrightarrow> items (arguments_of xs) i = xs ! i"
  by (simp add: arguments_of_def)

lemma copy_arguments_of: "map (items (arguments_of xs)) [0..<len (arguments_of xs)] = xs"
  by (rule nth_equalityI) (simp_all add: len_arguments_of items_arguments_of)

lemma logArgs_nonempty:
  "logArgs lv cat (arguments_of (x # rest)) =
     (case x of
        JStr s \<Rightarrow>
          put_back ((arguments_of (x # rest))\<lparr>items :=
            (items (arguments_of (x # rest)))(0 := JStr (prefix_of lv cat @ s))\<rparr>) rest 0
      | _ \<Rightarrow>
          put_back ((arguments_of (x # rest))\<lparr>items :=
            (items (arguments_of (x # rest)))(0 := JStr (prefix_of lv cat))\<rparr>) (x # rest) 0)"
  unfolding logArgs_def
  by (cases x; simp only: copy_arguments_of Let_def list.case jsval.case prod.case;
      simp add: len_arguments_of del: put_back.simps)

text \<open>
  What the console function receives. With no argument: nothing. With a string first:
  the prefix joined to it, then the other arguments as they were.
\<close>

lemma logArgs_none: "apply_list (logArgs lv cat (arguments_of [])) = []"
  by (simp add: logArgs_def apply_list_def arguments_of_def)

lemma logArgs_string_first:
  "apply_list (logArgs lv cat (arguments_of (JStr s # rest))) = JStr (prefix_of lv cat @ s) # rest"
proof (rule nth_equalityI)
  show "length (apply_list (logArgs lv cat (arguments_of (JStr s # rest))))
      = length (JStr (prefix_of lv cat @ s) # rest)"
    by (simp add: logArgs_nonempty apply_list_def len_put_back len_arguments_of)
next
  fix i
  assume "i < length (apply_list (logArgs lv cat (arguments_of (JStr s # rest))))"
  then have i: "i < Suc (length rest)"
    by (simp add: logArgs_nonempty apply_list_def len_put_back len_arguments_of)
  then show "apply_list (logArgs lv cat (arguments_of (JStr s # rest))) ! i
      = (JStr (prefix_of lv cat @ s) # rest) ! i"
    by (simp add: logArgs_nonempty apply_list_def len_put_back len_arguments_of
        items_put_back items_arguments_of nth_Cons' del: upt_Suc)
qed

text \<open>
  With a first argument that is not a string: the prefix, then the arguments but the
  last. The loop writes the last one at the index \<^verbatim>\<open>length\<close>, which
  \<^verbatim>\<open>apply\<close> does not read.
\<close>

lemma logArgs_other_first:
  assumes "\<And>s. x \<noteq> JStr s"
  shows "apply_list (logArgs lv cat (arguments_of (x # rest)))
         = JStr (prefix_of lv cat) # butlast (x # rest)"
proof -
  have eq: "logArgs lv cat (arguments_of (x # rest)) =
      put_back ((arguments_of (x # rest))\<lparr>items :=
        (items (arguments_of (x # rest)))(0 := JStr (prefix_of lv cat))\<rparr>) (x # rest) 0"
    using assms by (cases x; simp only: logArgs_nonempty jsval.case; blast)
  show ?thesis
  proof (rule nth_equalityI)
    show "length (apply_list (logArgs lv cat (arguments_of (x # rest))))
        = length (JStr (prefix_of lv cat) # butlast (x # rest))"
      by (simp add: eq apply_list_def len_put_back len_arguments_of del: put_back.simps)
  next
    fix i
    assume "i < length (apply_list (logArgs lv cat (arguments_of (x # rest))))"
    then have i: "i < Suc (length rest)"
      by (simp add: eq apply_list_def len_put_back len_arguments_of del: put_back.simps)
    then show "apply_list (logArgs lv cat (arguments_of (x # rest))) ! i
        = (JStr (prefix_of lv cat) # butlast (x # rest)) ! i"
      by (simp add: eq apply_list_def len_put_back len_arguments_of items_put_back
          items_arguments_of nth_Cons' nth_butlast del: upt_Suc put_back.simps butlast.simps)
  qed
qed

text \<open>
  \<^verbatim>\<open>error\<close> checks nothing: it calls \<^verbatim>\<open>console.error\<close> whatever the level. And a
  Logger whose level is one of the five Levels enables \<open>ERROR\<close>.
\<close>

lemma error_always_emits:
  "\<exists>emitted. error this args con = con @ [(ConsoleError, emitted)]"
  by (simp add: error_def)

lemma level_enables_ERROR: "logLevel this = JLevel lv \<Longrightarrow> isEnabled this ERROR"
  by (cases lv) (simp_all add: isEnabled_def)

text \<open>
  C8, at a failing input. \<^verbatim>\<open>error\<close> always calls \<^verbatim>\<open>console.error\<close>. But
  \<^verbatim>\<open>isEnabled(Level.ERROR)\<close> is not true of every Logger: when the storage holds
  \<^verbatim>\<open>toString\<close> for the category, \<^verbatim>\<open>Level['toString']\<close> is a function, the constructor
  keeps it as the level, and \<^verbatim>\<open>4 >= undefined\<close> is false.
\<close>

theorem builtin_name_disables_error:
  "fst (logger function_props [''a'' \<mapsto> ''toString''] (JStr ''a''))
     = Returned \<lparr>category = JStr ''a'', logLevel = JObj 2\<rparr>
   \<and> isEnabled \<lparr>category = JStr ''a'', logLevel = JObj 2\<rparr> ERROR = False
   \<and> error \<lparr>category = JStr ''a'', logLevel = JObj 2\<rparr> [JStr ''e-message''] []
     = [(ConsoleError, [JStr ''[ERROR - a] e-message''])]"
  by code_simp

text \<open>
  C9, at a failing input. The first argument is not a string: the prefix becomes the
  first argument, and the last original argument never reaches the console. The
  source's comments say the object is "array-like", not a real array, and that the loop
  is to "put them all back"; the loop does write every argument, the last one at an
  index that \<^verbatim>\<open>apply\<close> does not read.
\<close>

theorem logArgs_drops_last_argument:
  "error \<lparr>category = JStr ''a'', logLevel = JLevel ERROR\<rparr> [JNum 42] []
     = [(ConsoleError, [JStr ''[ERROR - a] ''])]
   \<and> error \<lparr>category = JStr ''a'', logLevel = JLevel ERROR\<rparr> [JNum 42, JStr ''x''] []
     = [(ConsoleError, [JStr ''[ERROR - a] '', JNum 42])]"
  by code_simp

section \<open>The tests of loglevels-spec.js\<close>

text \<open>
  The model run on the tests of the repository: the default level, the inherited
  levels with the blank values they leave in the storage, and what the console gets.
\<close>

lemma test_default_log_level:
  "objects (run function_props start [NewLogger (JStr ''a.b.c'')])
     = [\<lparr>category = JStr ''a.b.c'', logLevel = JLevel ERROR\<rparr>]"
  by code_simp

lemma test_inherited_log_level:
  "get_item (categories (run function_props start configure_abc)) (JStr ''a.b.d'') = JUndefined
   \<and> get_item (categories (run function_props start configure_abc)) (JStr ''a.x.a'') = JUndefined
   \<and> map logLevel (objects (run function_props start
         (configure_abc @
          [NewLogger (JStr ''a.b.c''), NewLogger (JStr ''a.b.d''), NewLogger (JStr ''a.x.a'')])))
       = [JLevel DEBUG, JLevel INFO, JLevel WARN]
   \<and> get_item (categories (run function_props start
         (configure_abc @
          [NewLogger (JStr ''a.b.c''), NewLogger (JStr ''a.b.d''), NewLogger (JStr ''a.x.a'')])))
         (JStr ''a.b.d'') = JStr ''_''
   \<and> get_item (categories (run function_props start
         (configure_abc @
          [NewLogger (JStr ''a.b.c''), NewLogger (JStr ''a.b.d''), NewLogger (JStr ''a.x.a'')])))
         (JStr ''a.x.a'') = JStr ''_''"
  by code_simp

lemma test_logging:
  "console_calls (run function_props start
     (configure_abc @
      [NewLogger (JStr ''a.b.c''), NewLogger (JStr ''a.b.d''), NewLogger (JStr ''a.x.a''),
       NewLogger (JStr ''z.z.z''),
       Debug 0 [JStr ''d-message'', JNum 1], Info 0 [JStr ''i-message''],
       Debug 1 [JStr ''message''], Info 1 [JStr ''message''],
       Debug 2 [JStr ''message''], Info 2 [JStr ''message''], Warn 2 [JStr ''message''],
       Warn 3 [JStr ''message''], Error 3 [JStr ''message'']]))
   = [(ConsoleDebug, [JStr ''[DEBUG - a.b.c] d-message'', JNum 1]),
      (ConsoleInfo, [JStr ''[INFO - a.b.c] i-message'']),
      (ConsoleInfo, [JStr ''[INFO - a.b.d] message'']),
      (ConsoleWarn, [JStr ''[WARN - a.x.a] message'']),
      (ConsoleError, [JStr ''[ERROR - z.z.z] message''])]"
  by code_simp

end
